theory Spec2Isabelle
  imports Main
begin

section \<open>The HTTP server of main.go\<close>

text \<open>
  The program registers three handlers on the default multiplexer of Go's net/http and
  calls \<^verbatim>\<open>http.ListenAndServe\<close>. Its own code (main.go) is embedded function by
  function. The parts of the Go standard library it calls (fmt, the response writer, the
  multiplexer, the connection loop of \<^verbatim>\<open>ListenAndServe\<close>, \<^verbatim>\<open>log.Fatal\<close>) are
  modelled as far as they decide the status and the body of a response: what the
  server's request reader makes of an arrival, the check of the \<^verbatim>\<open>Expect\<close> header
  before a handler is chosen, the routing, the writer (which sends no body bytes in answer
  to a HEAD request) and the lines the server logs.
\<close>

subsection \<open>Constants (main.go, lines 9-12)\<close>

definition defaultPort :: string where
  "defaultPort = ''8080''"

definition version :: string where
  "version = ''1.0.0''"

definition StatusOK :: nat where
  "StatusOK = 200"

subsection \<open>fmt: formatting with string operands\<close>

text \<open>
  \<^verbatim>\<open>fmt.Sprintf\<close> for the directives the program uses: \<^verbatim>\<open>%s\<close> and \<^verbatim>\<open>%v\<close> print a
  string operand as it is, \<^verbatim>\<open>%%\<close> prints a percent sign. A directive with no operand
  left prints \<^verbatim>\<open>%!s(MISSING)\<close>, a percent sign at the end prints \<^verbatim>\<open>%!(NOVERB)\<close>, and
  operands left over are reported in \<^verbatim>\<open>%!(EXTRA ...)\<close>. Flags, widths and other verbs
  do not occur in the program; the model prints them in the notation Go uses for a verb
  that does not fit its operand.
\<close>

fun extraOperands :: "string list \<Rightarrow> string" where
  "extraOperands [] = []"
| "extraOperands [a] = ''string='' @ a"
| "extraOperands (a # b # bs) = ''string='' @ a @ '', '' @ extraOperands (b # bs)"

fun Sprintf :: "string \<Rightarrow> string list \<Rightarrow> string" where
  "Sprintf [] args = (if args = [] then [] else ''%!(EXTRA '' @ extraOperands args @ '')'')"
| "Sprintf [c] args =
     (if c = CHR ''%'' then ''%!(NOVERB)'' @ Sprintf [] args else c # Sprintf [] args)"
| "Sprintf (c # v # fs) args =
     (if c \<noteq> CHR ''%'' then c # Sprintf (v # fs) args
      else if v = CHR ''%'' then CHR ''%'' # Sprintf fs args
      else (case args of
              [] \<Rightarrow> ''%!'' @ [v] @ ''(MISSING)'' @ Sprintf fs []
            | a # as \<Rightarrow>
                (if v = CHR ''s'' \<or> v = CHR ''v'' then a @ Sprintf fs as
                 else ''%!'' @ [v] @ ''(string='' @ a @ '')'' @ Sprintf fs as)))"

subsection \<open>Requests\<close>

text \<open>
  The fields of \<^verbatim>\<open>http.Request\<close> a handler or the server can read. A value of this
  type is a request as the server's request reader returns it. \<open>path\<close> is the escaped
  path of the request URL (\<^verbatim>\<open>r.URL.EscapedPath()\<close>); for the request target \<^verbatim>\<open>*\<close>
  it is \<^verbatim>\<open>*\<close>, and only then. \<open>header\<close> lists the header fields in the order of
  their arrival.
\<close>

record Request =
  reqMethod :: string
  path :: string
  rawQuery :: string
  host :: string
  header :: "(string \<times> string) list"
  body :: string

text \<open>
  What the request reader makes of the bytes that arrive on a connection: a request, or
  a failure. A malformed request line, header field or Host is answered with status 400,
  a header that is too large with 431, a transfer encoding other than chunked with 501,
  a protocol version the server does not speak with 505; when the connection breaks while
  the request is read, nothing is answered. What the reader refuses is an arrival
  \<open>Rejected\<close> and never a request: no handler and no multiplexer sees it.
\<close>

datatype readFailure =
    MalformedRequest
  | HeaderTooLarge
  | UnsupportedTransferEncoding
  | UnsupportedVersion
  | ReadBroken

datatype arrival = Rejected readFailure | Accepted Request


subsection \<open>net/http: the Expect header\<close>

text \<open>
  The reader stores header names in canonical capitalisation and values without the
  blanks around them. \<open>headerGet\<close> gives the first value of a name as
  \<^verbatim>\<open>Header.get\<close> gives it on the reader's map, however the field is written here:
  names are compared without regard to case, and the value is trimmed.
\<close>

definition asciiLower :: "char \<Rightarrow> char" where
  "asciiLower c =
     (let n = (of_char c :: nat) in if 65 \<le> n \<and> n \<le> 90 then char_of (n + 32) else c)"

definition isBlank :: "char \<Rightarrow> bool" where
  "isBlank c = (c = CHR '' '' \<or> c = CHR 0x09)"

definition trimBlanks :: "string \<Rightarrow> string" where
  "trimBlanks v = rev (dropWhile isBlank (rev (dropWhile isBlank v)))"

fun headerGet :: "(string \<times> string) list \<Rightarrow> string \<Rightarrow> string" where
  "headerGet [] key = []"
| "headerGet ((k, v) # hs) key =
     (if map asciiLower k = map asciiLower key then trimBlanks v else headerGet hs key)"

text \<open>
  \<^verbatim>\<open>hasToken\<close> of net/http: whether the token occurs in the value as a whole word,
  set off by blanks or commas, in any capitalisation. \<open>firstByteFits\<close> is the quick
  test on the first byte that the library makes before it compares the word.
\<close>

definition isTokenBoundary :: "char \<Rightarrow> bool" where
  "isTokenBoundary b = (b = CHR '' '' \<or> b = CHR '','' \<or> b = CHR 0x09)"

definition equalFold :: "string \<Rightarrow> string \<Rightarrow> bool" where
  "equalFold s t = (length s = length t \<and> map asciiLower s = map asciiLower t)"

definition firstByteFits :: "char \<Rightarrow> char \<Rightarrow> bool" where
  "firstByteFits b t0 =
     (let n = (of_char b :: nat);
          m = (if (n div 32) mod 2 = 0 then n + 32 else n)
      in b = t0 \<or> char_of m = t0)"

fun tokenScan :: "char option \<Rightarrow> string \<Rightarrow> string \<Rightarrow> bool" where
  "tokenScan prev [] token = False"
| "tokenScan prev (b # bs) token =
     (if length token \<le> length (b # bs) \<and> firstByteFits b (hd token) \<and>
         (case prev of None \<Rightarrow> True | Some p \<Rightarrow> isTokenBoundary p) \<and>
         (case drop (length token) (b # bs) of [] \<Rightarrow> True | e # es \<Rightarrow> isTokenBoundary e) \<and>
         equalFold (take (length token) (b # bs)) token
      then True
      else tokenScan (Some b) bs token)"

definition hasToken :: "string \<Rightarrow> string \<Rightarrow> bool" where
  "hasToken v token =
     (if length v < length token \<or> token = [] then False
      else if v = token then True
      else tokenScan None v token)"

text \<open>
  A request with an \<^verbatim>\<open>Expect\<close> header that does not ask for \<^verbatim>\<open>100-continue\<close> is
  refused with status 417 before a handler is chosen.
\<close>

definition expectsContinue :: "Request \<Rightarrow> bool" where
  "expectsContinue r = hasToken (headerGet (header r) ''Expect'') ''100-continue''"

definition expectationFailed :: "Request \<Rightarrow> bool" where
  "expectationFailed r = (\<not> expectsContinue r \<and> headerGet (header r) ''Expect'' \<noteq> [])"

subsection \<open>net/http: the response writer\<close>

text \<open>
  The state of one response: whether it answers a HEAD request, whether the header has
  been written and with which status, the informational (1xx) codes sent before it, the
  body bytes sent so far, and the lines the server logs on the writer's behalf.
\<close>

record ResponseWriter =
  headRequest :: bool
  wroteHeader :: bool
  status :: nat
  interim :: "nat list"
  sentBody :: string
  diagnostics :: "string list"

definition newResponse :: "Request \<Rightarrow> ResponseWriter" where
  "newResponse r =
     \<lparr>headRequest = (reqMethod r = ''HEAD''), wroteHeader = False, status = 0, interim = [],
      sentBody = [], diagnostics = []\<rparr>"

datatype panic =
    InvalidWriteHeaderCode nat
  | InvalidPattern string
  | PatternConflict string
  | PatternOutsideModel string

datatype 'a outcome = Returned 'a | Panicked panic

datatype write_error = ErrBodyNotAllowed

text \<open>
  \<^verbatim>\<open>WriteHeader\<close>: a second call is logged and ignored; a code outside 100..999
  panics; a 1xx code other than 101 is sent as an informational response and leaves the
  header open; any other code becomes the status of the response.
\<close>

definition WriteHeader :: "nat \<Rightarrow> ResponseWriter \<Rightarrow> ResponseWriter outcome" where
  "WriteHeader code w =
     (if wroteHeader w
      then Returned (w\<lparr>diagnostics := diagnostics w @ [''http: superfluous response.WriteHeader call'']\<rparr>)
      else if code < 100 \<or> 999 < code then Panicked (InvalidWriteHeaderCode code)
      else if 100 \<le> code \<and> code \<le> 199 \<and> code \<noteq> 101
      then Returned (w\<lparr>interim := interim w @ [code]\<rparr>)
      else Returned (w\<lparr>wroteHeader := True, status := code\<rparr>))"

definition bodyAllowedForStatus :: "nat \<Rightarrow> bool" where
  "bodyAllowedForStatus code =
     (if 100 \<le> code \<and> code \<le> 199 then False
      else if code = 204 then False
      else if code = 304 then False
      else True)"

text \<open>
  \<^verbatim>\<open>Write\<close>: the first write sends the header with status 200 if none was sent;
  an empty write does nothing more; a status that allows no body refuses the bytes with
  an error; in answer to a HEAD request the bytes are accepted and dropped; otherwise
  they are sent. The result is the writer, the number of bytes accepted and the error.
\<close>

definition Write :: "string \<Rightarrow> ResponseWriter \<Rightarrow> ResponseWriter \<times> nat \<times> write_error option" where
  "Write data w =
     (let w1 = (if wroteHeader w then w else w\<lparr>wroteHeader := True, status := StatusOK\<rparr>)
      in if data = [] then (w1, 0, None)
         else if \<not> bodyAllowedForStatus (status w1) then (w1, 0, Some ErrBodyNotAllowed)
         else if headRequest w1 then (w1, length data, None)
         else (w1\<lparr>sentBody := sentBody w1 @ data\<rparr>, length data, None))"

definition Fprintf :: "ResponseWriter \<Rightarrow> string \<Rightarrow> string list \<Rightarrow> ResponseWriter \<times> nat \<times> write_error option" where
  "Fprintf w format args = Write (Sprintf format args) w"

subsection \<open>net/http: request paths\<close>

text \<open>
  \<open>splitSlash\<close> cuts a string at every slash. The multiplexer reads a path segment by
  segment after dropping its first byte, so the segments of a path \<open>q\<close> are
  \<open>splitSlash (tl q)\<close>: \<^verbatim>\<open>/a/b\<close> has the segments \<^verbatim>\<open>a\<close>, \<^verbatim>\<open>b\<close>, and a trailing
  slash shows as a last, empty segment.
\<close>

fun splitSlash :: "string \<Rightarrow> string list" where
  "splitSlash [] = [[]]"
| "splitSlash (c # cs) =
     (if c = CHR ''/'' then [] # splitSlash cs
      else (case splitSlash cs of [] \<Rightarrow> [[c]] | s # ss \<Rightarrow> (c # s) # ss))"

definition joinSlash :: "string list \<Rightarrow> string" where
  "joinSlash ss = concat (map (\<lambda>s. CHR ''/'' # s) ss)"

text \<open>
  \<^verbatim>\<open>path.Clean\<close> on a rooted path: empty and \<^verbatim>\<open>.\<close> elements are dropped, \<^verbatim>\<open>..\<close>
  removes the element before it and is dropped at the root.
\<close>

fun cleanElems :: "string list \<Rightarrow> string list \<Rightarrow> string list" where
  "cleanElems [] out = rev out"
| "cleanElems (s # ss) out =
     (if s = [] \<or> s = ''.'' then cleanElems ss out
      else if s = ''..'' then cleanElems ss (case out of [] \<Rightarrow> [] | x # xs \<Rightarrow> xs)
      else cleanElems ss (s # out))"

definition pathClean :: "string \<Rightarrow> string" where
  "pathClean p =
     (let es = cleanElems (splitSlash (tl p)) [] in if es = [] then ''/'' else joinSlash es)"

text \<open>
  \<^verbatim>\<open>cleanPath\<close> of net/http: the canonical form of a request path. A trailing slash
  survives the cleaning.
\<close>

definition cleanPath :: "string \<Rightarrow> string" where
  "cleanPath p =
     (if p = [] then ''/''
      else
        (let p1 = (if hd p \<noteq> CHR ''/'' then CHR ''/'' # p else p);
             np = pathClean p1
         in if last p1 = CHR ''/'' \<and> np \<noteq> ''/''
            then (if length p1 = length np + 1 \<and> take (length np) p1 = np then p1
                  else np @ ''/'')
            else np))"

text \<open>
  Percent-decoding of one path segment (\<^verbatim>\<open>url.PathUnescape\<close>); a segment with a
  malformed escape is used as it is.
\<close>

definition hexVal :: "char \<Rightarrow> nat option" where
  "hexVal c =
     (let n = (of_char c :: nat)
      in if 48 \<le> n \<and> n \<le> 57 then Some (n - 48)
         else if 97 \<le> n \<and> n \<le> 102 then Some (n - 87)
         else if 65 \<le> n \<and> n \<le> 70 then Some (n - 55)
         else None)"

fun unescape :: "string \<Rightarrow> string option" where
  "unescape [] = Some []"
| "unescape (c # cs) =
     (if c = CHR ''%''
      then (case cs of
              a # b # rest \<Rightarrow>
                (case hexVal a of
                   None \<Rightarrow> None
                 | Some x \<Rightarrow>
                     (case hexVal b of
                        None \<Rightarrow> None
                      | Some y \<Rightarrow> map_option ((#) (char_of (16 * x + y))) (unescape rest)))
            | _ \<Rightarrow> None)
      else map_option ((#) c) (unescape cs))"

definition pathUnescape :: "string \<Rightarrow> string" where
  "pathUnescape s = (case unescape s of Some t \<Rightarrow> t | None \<Rightarrow> s)"

subsection \<open>net/http: the multiplexer\<close>

text \<open>
  \<^verbatim>\<open>http.ServeMux\<close> as of Go 1.22 to 1.25 (the repository asks for Go 1.25.3).
  A multiplexer is the list of its registrations. A registered handler is a function
  value of the program; the three functions that main.go registers are named by the
  constructors of \<open>handlerFn\<close>, and \<open>callHandler\<close> below runs the function a name
  stands for. The model covers the patterns that are plain paths in canonical form, as
  the three patterns of the program are: no method, no host, no wildcard, no escape. A
  pattern that ends in a slash names a subtree, any other pattern names one path.
\<close>

datatype handlerFn = HandleRoot | HandleHealth | HandleVersion

type_synonym ServeMux = "(string \<times> handlerFn) list"

definition plainPattern :: "string \<Rightarrow> bool" where
  "plainPattern p =
     (p \<noteq> [] \<and> hd p = CHR ''/'' \<and> CHR ''{'' \<notin> set p \<and> CHR ''}'' \<notin> set p \<and>
      CHR ''%'' \<notin> set p \<and> CHR '' '' \<notin> set p \<and> CHR 0x09 \<notin> set p \<and> cleanPath p = p)"

text \<open>
  \<^verbatim>\<open>http.HandleFunc\<close> registers on the default multiplexer, which is passed and
  returned here. It panics on an empty pattern and on a pattern registered before.
\<close>

definition HandleFunc :: "string \<Rightarrow> handlerFn \<Rightarrow> ServeMux \<Rightarrow> ServeMux outcome" where
  "HandleFunc pattern handler mux =
     (if pattern = [] then Panicked (InvalidPattern pattern)
      else if \<not> plainPattern pattern then Panicked (PatternOutsideModel pattern)
      else if pattern \<in> set (map fst mux) then Panicked (PatternConflict pattern)
      else Returned (mux @ [(pattern, handler)]))"

text \<open>
  The segments of a request path are percent-decoded one by one before they are compared.
  A pattern for one path matches the paths whose decoded segments are its own; a pattern
  for a subtree matches the paths that go on below it. The empty path matches nothing.
\<close>

definition pathSegments :: "string \<Rightarrow> string list" where
  "pathSegments q = map pathUnescape (splitSlash (tl q))"

definition patternMatches :: "string \<Rightarrow> string \<Rightarrow> bool" where
  "patternMatches pat q =
     (if q = [] then False
      else
        (let ps = splitSlash (tl pat);
             qs = pathSegments q
         in if last ps = []
            then length (butlast ps) < length qs \<and> take (length (butlast ps)) qs = butlast ps
            else qs = ps))"

definition literalCount :: "string \<Rightarrow> nat" where
  "literalCount pat =
     (let ps = splitSlash (tl pat) in if last ps = [] then length ps - 1 else length ps)"

text \<open>Of the patterns that match, the most specific one wins: the one with most segments.\<close>

fun matchPath :: "ServeMux \<Rightarrow> string \<Rightarrow> (string \<times> handlerFn) option" where
  "matchPath [] q = None"
| "matchPath ((pat, h) # es) q =
     (case matchPath es q of
        None \<Rightarrow> (if patternMatches pat q then Some (pat, h) else None)
      | Some (pat', h') \<Rightarrow>
          (if patternMatches pat q \<and> literalCount pat' < literalCount pat then Some (pat, h)
           else Some (pat', h')))"

definition exactMatch :: "(string \<times> handlerFn) option \<Rightarrow> string \<Rightarrow> bool" where
  "exactMatch n q =
     (case n of
        None \<Rightarrow> False
      | Some (pat, h) \<Rightarrow>
          (if last pat \<noteq> CHR ''/'' then True
           else if q \<noteq> [] \<and> last q \<noteq> CHR ''/'' then False
           else length (splitSlash (tl pat)) = count_list q (CHR ''/'')))"

text \<open>
  The two redirects the multiplexer generates, both with status 301: to the cleaned form
  of the request path, and to a registered subtree (the constructor holds the matched
  path with the slash appended). The text of the \<^verbatim>\<open>Location\<close> header is not modelled.
\<close>

datatype redirect = CleanedPath string | TrailingSlash string

datatype lookup = Match "(string \<times> handlerFn) option" | Redirect redirect

text \<open>
  \<^verbatim>\<open>matchOrRedirect\<close>: when the path has no exact match and no trailing slash, and
  the path with a slash appended is a registered subtree, the request is redirected
  there (only when the caller passes the URL).
\<close>

definition matchOrRedirect :: "ServeMux \<Rightarrow> string \<Rightarrow> bool \<Rightarrow> lookup" where
  "matchOrRedirect mux q withURL =
     (let n = matchPath mux q
      in if \<not> exactMatch n q \<and> withURL \<and> \<not> (q \<noteq> [] \<and> last q = CHR ''/'')
         then (let q2 = q @ ''/''
               in if exactMatch (matchPath mux q2) q2 then Redirect (TrailingSlash q2)
                  else Match n)
         else Match n)"

datatype route = Registered string handlerFn | RedirectHandler redirect | NotFoundHandler

text \<open>
  \<^verbatim>\<open>findHandler\<close>: the path of a CONNECT request is matched as it is; the path of
  any other request is cleaned first, and a request whose path is not in canonical form
  is redirected to the cleaned path.
\<close>

definition findHandler :: "ServeMux \<Rightarrow> Request \<Rightarrow> route" where
  "findHandler mux r =
     (if reqMethod r = ''CONNECT''
      then (case matchOrRedirect mux (path r) True of
              Redirect u \<Rightarrow> RedirectHandler u
            | Match n0 \<Rightarrow>
                (case matchOrRedirect mux (path r) False of
                   Redirect u \<Rightarrow> RedirectHandler u
                 | Match None \<Rightarrow> NotFoundHandler
                 | Match (Some (pat, h)) \<Rightarrow> Registered pat h))
      else
        (let p = cleanPath (path r)
         in case matchOrRedirect mux p True of
              Redirect u \<Rightarrow> RedirectHandler u
            | Match n \<Rightarrow>
                (if p \<noteq> path r then RedirectHandler (CleanedPath p)
                 else (case n of
                         None \<Rightarrow> NotFoundHandler
                       | Some (pat, h) \<Rightarrow> Registered pat h))))"

subsection \<open>What the server answers\<close>

text \<open>
  The answer to one arrival: the writer a registered handler leaves behind, a handler's
  panic (the server drops the connection), or a response the library generates itself,
  of which the model keeps the kind and the status.
\<close>

datatype served =
    Handled ResponseWriter
  | Aborted panic
  | MovedPermanently redirect
  | NotFound404
  | BadRequest400
  | GlobalOptions
  | ExpectationFailed417
  | ReaderRefused readFailure


text \<open>
  The body of the response, where the model has it: the bytes a handler's writer sent,
  and the empty body of the server's answer to \<^verbatim>\<open>OPTIONS *\<close> and of its status 417.
\<close>

fun responseBody :: "served \<Rightarrow> string option" where
  "responseBody (Handled w) = Some (sentBody w)"
| "responseBody GlobalOptions = Some []"
| "responseBody ExpectationFailed417 = Some []"
| "responseBody other = None"

subsection \<open>The process\<close>

text \<open>
  The state of the process, which every Go function of the program can reach: the
  default multiplexer and the lines written to the standard logger (the message texts,
  without the time stamp); and what the process has done: the addresses it tried to
  listen on, the answers it gave, the panic that ended it and its exit status (\<open>None\<close>
  while it runs).
\<close>

record Process =
  handlers :: ServeMux
  logged :: "string list"
  listened :: "string list"
  responses :: "(arrival \<times> served) list"
  panicked :: "panic option"
  exitStatus :: "nat option"

definition startProcess :: Process where
  "startProcess =
     \<lparr>handlers = [], logged = [], listened = [], responses = [], panicked = None,
      exitStatus = None\<rparr>"

subsection \<open>The handlers (main.go, lines 30-41)\<close>

text \<open>
  A handler gets the writer, the request and the state of the process, and returns the
  writer (or its panic) and the state of the process. The results of \<^verbatim>\<open>Fprintf\<close>
  (byte count and error) are discarded, as in the source.
\<close>

type_synonym HandlerFunc =
  "ResponseWriter \<Rightarrow> Request \<Rightarrow> Process \<Rightarrow> ResponseWriter outcome \<times> Process"

definition handleRoot :: HandlerFunc where
  "handleRoot w r s =
     (case Fprintf w ''Hello! Welcome to the Go Makefile Project!\<newline>'' [] of
        (w', n, err) \<Rightarrow> (Returned w', s))"

definition handleHealth :: HandlerFunc where
  "handleHealth w r s =
     (case WriteHeader StatusOK w of
        Panicked p \<Rightarrow> (Panicked p, s)
      | Returned w1 \<Rightarrow>
          (case Fprintf w1 ''OK\<newline>'' [] of (w', n, err) \<Rightarrow> (Returned w', s)))"

definition handleVersion :: HandlerFunc where
  "handleVersion w r s =
     (case Fprintf w ''Version: %s\<newline>'' [version] of
        (w', n, err) \<Rightarrow> (Returned w', s))"

fun callHandler :: "handlerFn \<Rightarrow> HandlerFunc" where
  "callHandler HandleRoot = handleRoot"
| "callHandler HandleHealth = handleHealth"
| "callHandler HandleVersion = handleVersion"

subsection \<open>net/http: serving one arrival\<close>

text \<open>
  \<^verbatim>\<open>ServeMux.ServeHTTP\<close> on the default multiplexer: the target \<^verbatim>\<open>*\<close> is a bad
  request; any other request goes to the handler found for it.
\<close>

definition ServeHTTP :: "ResponseWriter \<Rightarrow> Request \<Rightarrow> Process \<Rightarrow> served \<times> Process" where
  "ServeHTTP w r s =
     (if path r = ''*'' then (BadRequest400, s)
      else (case findHandler (handlers s) r of
              Registered pat h \<Rightarrow>
                (case callHandler h w r s of
                   (Returned w', s') \<Rightarrow> (Handled w', s')
                 | (Panicked p, s') \<Rightarrow> (Aborted p, s'))
            | RedirectHandler u \<Rightarrow> (MovedPermanently u, s)
            | NotFoundHandler \<Rightarrow> (NotFound404, s)))"

text \<open>
  The server's handler for a server without a handler of its own (the \<^verbatim>\<open>nil\<close> passed
  to \<^verbatim>\<open>ListenAndServe\<close>): \<^verbatim>\<open>OPTIONS *\<close> is answered by the server, everything else
  goes to the default multiplexer. When the query of the request contains a semicolon,
  the server logs a warning after the handler has returned.
\<close>

definition semicolonWarning :: string where
  "semicolonWarning = ''http: URL query contains semicolon, which is no longer a supported separator; parts of the query may be stripped when parsed; see golang.org/issue/25192''"

definition serverHandler :: "ResponseWriter \<Rightarrow> Request \<Rightarrow> Process \<Rightarrow> served \<times> Process" where
  "serverHandler w r s =
     (case (if path r = ''*'' \<and> reqMethod r = ''OPTIONS'' then (GlobalOptions, s)
            else ServeHTTP w r s) of
        (resp, s') \<Rightarrow>
          (resp, if CHR '';'' \<in> set (rawQuery r)
                 then s'\<lparr>logged := logged s' @ [semicolonWarning]\<rparr> else s'))"

text \<open>When the handler returns without a header, the server sends status 200.\<close>

definition finishRequest :: "ResponseWriter \<Rightarrow> ResponseWriter" where
  "finishRequest w = (if wroteHeader w then w else w\<lparr>wroteHeader := True, status := StatusOK\<rparr>)"

text \<open>
  Handling a request that passed the checks: a fresh writer, the server's handler, the
  end of the response, and the log of what the writer or a panic left to log.
\<close>

definition serveRequest :: "Request \<Rightarrow> Process \<Rightarrow> served \<times> Process" where
  "serveRequest r s =
     (case serverHandler (newResponse r) r s of
        (Handled w, s') \<Rightarrow>
          (Handled (finishRequest w), s'\<lparr>logged := logged s' @ diagnostics w\<rparr>)
      | (Aborted p, s') \<Rightarrow>
          (Aborted p, s'\<lparr>logged := logged s' @ [''http: panic serving'']\<rparr>)
      | (other, s') \<Rightarrow> (other, s'))"

text \<open>
  One turn of the connection loop: a failure of the reader is answered by the server;
  a request that expects \<^verbatim>\<open>100-continue\<close> is handled; a request with any other
  \<^verbatim>\<open>Expect\<close> header is refused with status 417; a request without one is handled.
\<close>

definition connServe :: "arrival \<Rightarrow> Process \<Rightarrow> served \<times> Process" where
  "connServe a s =
     (case a of
        Rejected f \<Rightarrow> (ReaderRefused f, s)
      | Accepted r \<Rightarrow>
          (if expectsContinue r then serveRequest r s
           else if headerGet (header r) ''Expect'' \<noteq> [] then (ExpectationFailed417, s)
           else serveRequest r s))"

text \<open>The server's answer to an arrival, in a given state of the process.\<close>

definition answer :: "Process \<Rightarrow> arrival \<Rightarrow> served" where
  "answer s a = fst (connServe a s)"

subsection \<open>The listener and the exit\<close>

text \<open>
  The world outside: whether binding the listener fails (with which error), what arrives
  while the server runs, and the error that ends the accept loop, if one does (\<open>None\<close>:
  the server goes on waiting).
\<close>

record Env =
  listenError :: "string option"
  requests :: "arrival list"
  serveError :: "string option"

definition serveOne :: "Process \<Rightarrow> arrival \<Rightarrow> Process" where
  "serveOne s a =
     (case connServe a s of
        (resp, s') \<Rightarrow> s'\<lparr>responses := responses s' @ [(a, resp)]\<rparr>)"

fun serveAll :: "Process \<Rightarrow> arrival list \<Rightarrow> Process" where
  "serveAll s [] = s"
| "serveAll s (a # as) = serveAll (serveOne s a) as"

text \<open>
  \<^verbatim>\<open>http.ListenAndServe\<close>: one attempt to bind the address; on failure it returns the
  error at once; on success it serves until the accept loop fails. The second component
  is the error returned, \<open>None\<close> when the call does not return.
\<close>

definition ListenAndServe :: "string \<Rightarrow> Env \<Rightarrow> Process \<Rightarrow> Process \<times> string option" where
  "ListenAndServe addr env s =
     (let s1 = s\<lparr>listened := listened s @ [addr]\<rparr>
      in case listenError env of
           Some e \<Rightarrow> (s1, Some e)
         | None \<Rightarrow> (serveAll s1 (requests env), serveError env))"

text \<open>\<^verbatim>\<open>log.Fatal\<close>: print the error, then exit with status 1.\<close>

definition logFatal :: "string \<Rightarrow> Process \<Rightarrow> Process" where
  "logFatal e s = s\<lparr>logged := logged s @ [e], exitStatus := Some 1\<rparr>"

text \<open>A panic that nothing recovers ends a Go process with status 2.\<close>

definition goPanic :: "panic \<Rightarrow> Process \<Rightarrow> Process" where
  "goPanic p s = s\<lparr>panicked := Some p, exitStatus := Some 2\<rparr>"

subsection \<open>main (main.go, lines 14-28)\<close>

text \<open>
  Lines 15-18: the port. The fallback is a parameter, so that a theorem can say whether
  its value matters; \<open>main\<close> passes \<open>defaultPort\<close>.
\<close>

definition mainPort :: "string \<Rightarrow> string" where
  "mainPort fallback = (let port = ''3000'' in if port = [] then fallback else port)"

text \<open>Lines 20-22: the three registrations, in the source's order.\<close>

definition registerHandlers :: "ServeMux \<Rightarrow> ServeMux outcome" where
  "registerHandlers mux =
     (case HandleFunc ''/'' HandleRoot mux of
        Panicked p \<Rightarrow> Panicked p
      | Returned m1 \<Rightarrow>
          (case HandleFunc ''/health'' HandleHealth m1 of
             Panicked p \<Rightarrow> Panicked p
           | Returned m2 \<Rightarrow> HandleFunc ''/version'' HandleVersion m2))"

definition main :: "Env \<Rightarrow> Process" where
  "main env =
     (let port = mainPort defaultPort
      in case registerHandlers (handlers startProcess) of
           Panicked p \<Rightarrow> goPanic p startProcess
         | Returned mux \<Rightarrow>
             (let s1 = startProcess\<lparr>handlers := mux\<rparr>;
                  s2 = s1\<lparr>logged := logged s1 @ [Sprintf ''Starting server on port %s...'' [port]]\<rparr>
              in case ListenAndServe ('':'' @ port) env s2 of
                   (s3, Some err) \<Rightarrow> logFatal err s3
                 | (s3, None) \<Rightarrow> s3))"

text \<open>The default multiplexer as \<open>main\<close> leaves it.\<close>

definition DefaultServeMux :: ServeMux where
  "DefaultServeMux = [(''/'', HandleRoot), (''/health'', HandleHealth), (''/version'', HandleVersion)]"

subsection \<open>Notions used in the statements\<close>

text \<open>
  The writer after a handler wrote status 200 and the body \<open>b\<close> on a fresh writer;
  \<open>h\<close> tells whether the request was a HEAD request.
\<close>

definition okResponse :: "bool \<Rightarrow> string \<Rightarrow> ResponseWriter" where
  "okResponse h b =
     \<lparr>headRequest = h, wroteHeader = True, status = 200, interim = [],
      sentBody = (if h then [] else b), diagnostics = []\<rparr>"

definition welcomeLine :: string where
  "welcomeLine = ''Hello! Welcome to the Go Makefile Project!\<newline>''"

definition startLine :: string where
  "startLine = ''Starting server on port 3000...''"

text \<open>The process when \<open>main\<close> has registered its handlers and nothing else has happened.\<close>

definition defaultProcess :: Process where
  "defaultProcess = startProcess\<lparr>handlers := DefaultServeMux\<rparr>"

text \<open>The lines the server itself logs for a request: the warning about a semicolon.\<close>

definition semicolonLog :: "Request \<Rightarrow> string list" where
  "semicolonLog r = (if CHR '';'' \<in> set (rawQuery r) then [semicolonWarning] else [])"

definition serverWarnings :: "arrival \<Rightarrow> string list" where
  "serverWarnings a =
     (case a of
        Rejected f \<Rightarrow> []
      | Accepted r \<Rightarrow>
          (if expectationFailed r then [] else semicolonLog r))"

text \<open>
  A valid TCP port number, as the specification words it: a non-empty string of decimal
  digits whose value lies in 1..65535.
\<close>

fun allDigits :: "string \<Rightarrow> bool" where
  "allDigits [] = True"
| "allDigits (c # cs) = (48 \<le> (of_char c :: nat) \<and> (of_char c :: nat) \<le> 57 \<and> allDigits cs)"

fun decimalValue :: "string \<Rightarrow> nat \<Rightarrow> nat" where
  "decimalValue [] n = n"
| "decimalValue (c # cs) n = decimalValue cs (10 * n + (of_char c - 48))"

definition validPort :: "string \<Rightarrow> bool" where
  "validPort s = (s \<noteq> [] \<and> allDigits s \<and> 1 \<le> decimalValue s 0 \<and> decimalValue s 0 \<le> 65535)"

text \<open>Concrete requests and environments for the examples.\<close>

definition exampleRequest :: "string \<Rightarrow> string \<Rightarrow> Request" where
  "exampleRequest m p =
     \<lparr>reqMethod = m, path = p, rawQuery = [], host = ''localhost:3000'', header = [], body = []\<rparr>"

definition exampleEnv :: "string option \<Rightarrow> arrival list \<Rightarrow> Env" where
  "exampleEnv e as = \<lparr>listenError = e, requests = as, serveError = None\<rparr>"

section \<open>Facts about the library model and the program\<close>

lemma splitSlash_nonempty: "splitSlash xs \<noteq> []"
  by (induction xs) (auto split: list.splits)

lemma splitSlash_append_slash: "splitSlash (xs @ ''/'') = splitSlash xs @ [[]]"
  by (induction xs) (auto split: list.splits simp: splitSlash_nonempty)

lemma pathSegments_nonempty: "pathSegments q \<noteq> []"
  by (simp add: pathSegments_def splitSlash_nonempty)

lemma length_splitSlash: "0 < length (splitSlash xs)"
  using splitSlash_nonempty [of xs] by simp

lemma pathSegments_slash_not_single: "q \<noteq> [] \<Longrightarrow> pathSegments (q @ ''/'') \<noteq> [x]"
proof -
  assume "q \<noteq> []"
  then have "tl (q @ ''/'') = tl q @ ''/''" by simp
  then have "length (pathSegments (q @ ''/'')) = Suc (length (splitSlash (tl q)))"
    by (simp add: pathSegments_def splitSlash_append_slash)
  with length_splitSlash [of "tl q"] show ?thesis by auto
qed

lemma matchPath_default:
  "matchPath DefaultServeMux q =
     (if q = [] then None
      else if pathSegments q = [''health''] then Some (''/health'', HandleHealth)
      else if pathSegments q = [''version''] then Some (''/version'', HandleVersion)
      else Some (''/'', HandleRoot))"
  by (simp add: DefaultServeMux_def patternMatches_def literalCount_def pathSegments_nonempty)

lemma registerHandlers_default: "registerHandlers [] = Returned DefaultServeMux"
  by (simp add: registerHandlers_def HandleFunc_def plainPattern_def cleanPath_def
      pathClean_def joinSlash_def DefaultServeMux_def)

lemma joinSlash_rooted: "es \<noteq> [] \<Longrightarrow> joinSlash es \<noteq> [] \<and> hd (joinSlash es) = CHR ''/''"
  by (cases es) (simp_all add: joinSlash_def)

lemma pathClean_rooted: "pathClean p \<noteq> [] \<and> hd (pathClean p) = CHR ''/''"
  by (simp add: pathClean_def Let_def joinSlash_rooted)

lemma cleanPath_rooted: "cleanPath p \<noteq> [] \<and> hd (cleanPath p) = CHR ''/''"
proof (cases "p = []")
  case True
  then show ?thesis by (simp add: cleanPath_def)
next
  case False
  define p1 where "p1 = (if hd p \<noteq> CHR ''/'' then CHR ''/'' # p else p)"
  define np where "np = pathClean p1"
  have p1: "p1 \<noteq> [] \<and> hd p1 = CHR ''/''"
    using False unfolding p1_def by (cases "hd p = CHR ''/''") simp_all
  have np: "np \<noteq> [] \<and> hd np = CHR ''/''"
    unfolding np_def by (rule pathClean_rooted)
  have eq: "cleanPath p =
      (if last p1 = CHR ''/'' \<and> np \<noteq> ''/''
       then (if length p1 = length np + 1 \<and> take (length np) p1 = np then p1 else np @ ''/'')
       else np)"
    unfolding cleanPath_def p1_def np_def Let_def using False by (simp only: if_False)
  have "cleanPath p = p1 \<or> cleanPath p = np @ ''/'' \<or> cleanPath p = np"
    unfolding eq by (simp only: split: if_split) blast
  with p1 np show ?thesis
    by (elim disjE) simp_all
qed

lemma count_slash_rooted:
  "q \<noteq> [] \<Longrightarrow> hd q = CHR ''/'' \<Longrightarrow> 2 \<le> count_list (q @ ''/'') (CHR ''/'')"
  by (cases q) simp_all

lemma matchOrRedirect_default:
  assumes "q \<noteq> []" and "hd q = CHR ''/''"
  shows "matchOrRedirect DefaultServeMux q b = Match (matchPath DefaultServeMux q)"
proof -
  have "matchPath DefaultServeMux (q @ ''/'') = Some (''/'', HandleRoot)"
    using assms(1) by (simp add: matchPath_default pathSegments_slash_not_single)
  moreover have "count_list (q @ ''/'') (CHR ''/'') \<noteq> Suc 0"
    using count_slash_rooted [OF assms] by simp
  ultimately have "\<not> exactMatch (matchPath DefaultServeMux (q @ ''/'')) (q @ ''/'')"
    by (simp add: exactMatch_def)
  then show ?thesis
    by (simp add: matchOrRedirect_def Let_def)
qed

lemma matchOrRedirect_default_empty:
  "matchOrRedirect DefaultServeMux [] True = Redirect (TrailingSlash ''/'')"
  by (simp add: matchOrRedirect_def matchPath_default exactMatch_def pathSegments_def
      pathUnescape_def)

lemma findHandler_default_rooted:
  assumes "path r \<noteq> []" and "hd (path r) = CHR ''/''"
    and "reqMethod r = ''CONNECT'' \<or> cleanPath (path r) = path r"
  shows "findHandler DefaultServeMux r =
     (if pathSegments (path r) = [''health''] then Registered ''/health'' HandleHealth
      else if pathSegments (path r) = [''version''] then Registered ''/version'' HandleVersion
      else Registered ''/'' HandleRoot)"
proof -
  have m: "matchOrRedirect DefaultServeMux (path r) b = Match (matchPath DefaultServeMux (path r))" for b
    using assms(1,2) by (rule matchOrRedirect_default)
  show ?thesis
  proof (cases "reqMethod r = ''CONNECT''")
    case True
    then show ?thesis
      using assms(1) by (simp add: findHandler_def m matchPath_default)
  next
    case False
    with assms(3) have c: "cleanPath (path r) = path r" by simp
    show ?thesis
      using False assms(1) by (simp add: findHandler_def c m matchPath_default Let_def)
  qed
qed


lemma matchPath_default_some:
  "q \<noteq> [] \<Longrightarrow>
     matchPath DefaultServeMux q = Some (''/health'', HandleHealth) \<or>
     matchPath DefaultServeMux q = Some (''/version'', HandleVersion) \<or>
     matchPath DefaultServeMux q = Some (''/'', HandleRoot)"
  by (simp add: matchPath_default)

lemma findHandler_default_cases:
  "(\<exists>u. findHandler DefaultServeMux r = RedirectHandler u) \<or>
   (\<exists>pat h. findHandler DefaultServeMux r = Registered pat h)"
proof (cases "reqMethod r = ''CONNECT''")
  case True
  show ?thesis
  proof (cases "path r = []")
    case True
    with \<open>reqMethod r = ''CONNECT''\<close> show ?thesis
      by (simp add: findHandler_def matchOrRedirect_default_empty)
  next
    case False
    have second: "matchOrRedirect DefaultServeMux (path r) False = Match (matchPath DefaultServeMux (path r))"
      by (simp add: matchOrRedirect_def Let_def)
    show ?thesis
      using matchPath_default_some [OF False] True
      by (cases "matchOrRedirect DefaultServeMux (path r) True")
         (auto simp add: findHandler_def second)
  qed
next
  case False
  have m: "matchOrRedirect DefaultServeMux (cleanPath (path r)) True =
      Match (matchPath DefaultServeMux (cleanPath (path r)))"
    using cleanPath_rooted [of "path r"] by (simp add: matchOrRedirect_default)
  have "cleanPath (path r) \<noteq> []"
    using cleanPath_rooted [of "path r"] by simp
  from matchPath_default_some [OF this] False show ?thesis
    by (auto simp add: findHandler_def m Let_def)
qed



lemma cleanPath_version: "cleanPath ''/version'' = ''/version''"
  by (simp add: cleanPath_def pathClean_def joinSlash_def)



lemma pathSegments_version: "pathSegments ''/version'' = [''version'']"
  by (simp add: pathSegments_def pathUnescape_def)


lemma rooted_not_star: "hd q = CHR ''/'' \<Longrightarrow> q \<noteq> ''*''"
  by auto

lemma handleRoot_new:
  "handleRoot (newResponse r') r s = (Returned (okResponse (reqMethod r' = ''HEAD'') welcomeLine), s)"
  by (simp add: handleRoot_def Fprintf_def Write_def newResponse_def StatusOK_def
      bodyAllowedForStatus_def okResponse_def welcomeLine_def)

lemma handleHealth_new:
  "handleHealth (newResponse r') r s = (Returned (okResponse (reqMethod r' = ''HEAD'') ''OK\<newline>''), s)"
  by (simp add: handleHealth_def WriteHeader_def Fprintf_def Write_def newResponse_def
      StatusOK_def bodyAllowedForStatus_def okResponse_def)

lemma handleVersion_new:
  "handleVersion (newResponse r') r s =
     (Returned (okResponse (reqMethod r' = ''HEAD'') ''Version: 1.0.0\<newline>''), s)"
  by (simp add: handleVersion_def Fprintf_def Write_def newResponse_def StatusOK_def
      bodyAllowedForStatus_def version_def okResponse_def)

lemma callHandler_new:
  "\<exists>b. callHandler h (newResponse r') r s = (Returned (okResponse (reqMethod r' = ''HEAD'') b), s)"
proof (cases h)
  case HandleRoot
  then show ?thesis by (simp add: handleRoot_new) (rule exI, rule refl)
next
  case HandleHealth
  then show ?thesis by (simp add: handleHealth_new) (rule exI, rule refl)
next
  case HandleVersion
  then show ?thesis by (simp add: handleVersion_new) (rule exI, rule refl)
qed

lemma finishRequest_ok: "finishRequest (okResponse h b) = okResponse h b"
  by (simp add: finishRequest_def okResponse_def)

lemma diagnostics_ok: "diagnostics (okResponse h b) = []"
  by (simp add: okResponse_def)

lemma log_append_nothing: "s\<lparr>logged := logged s @ []\<rparr> = (s :: Process)"
  by simp

lemma serverHandler_log:
  "serverHandler w r s =
     (case (if path r = ''*'' \<and> reqMethod r = ''OPTIONS'' then (GlobalOptions, s)
            else ServeHTTP w r s) of
        (resp, s') \<Rightarrow> (resp, s'\<lparr>logged := logged s' @ semicolonLog r\<rparr>))"
  by (simp add: serverHandler_def semicolonLog_def split: prod.split)

text \<open>A request whose path begins with a slash, in canonical form or with CONNECT.\<close>

lemma serveRequest_default_rooted:
  assumes "handlers s = DefaultServeMux"
    and "path r \<noteq> []" and "hd (path r) = CHR ''/''"
    and "reqMethod r = ''CONNECT'' \<or> cleanPath (path r) = path r"
  shows "serveRequest r s =
     (Handled (okResponse (reqMethod r = ''HEAD'')
        (if pathSegments (path r) = [''health''] then ''OK\<newline>''
         else if pathSegments (path r) = [''version''] then ''Version: 1.0.0\<newline>''
         else welcomeLine)),
      s\<lparr>logged := logged s @ semicolonLog r\<rparr>)"
  using rooted_not_star [OF assms(3)]
  by (simp add: serveRequest_def serverHandler_log ServeHTTP_def assms(1)
      findHandler_default_rooted [OF assms(2,3,4)]
      handleRoot_new handleHealth_new handleVersion_new finishRequest_ok diagnostics_ok)


text \<open>Any request at all.\<close>

lemma serveRequest_default_cases:
  assumes "handlers s = DefaultServeMux"
  shows "snd (serveRequest r s) = s\<lparr>logged := logged s @ semicolonLog r\<rparr> \<and>
     (fst (serveRequest r s) = GlobalOptions \<or>
      fst (serveRequest r s) = BadRequest400 \<or>
      (\<exists>u. fst (serveRequest r s) = MovedPermanently u) \<or>
      (\<exists>b. fst (serveRequest r s) = Handled (okResponse (reqMethod r = ''HEAD'') b)))"
proof (cases "path r = ''*''")
  case True
  then show ?thesis
    by (simp add: serveRequest_def serverHandler_log ServeHTTP_def)
next
  case False
  from findHandler_default_cases [of r] show ?thesis
  proof (elim disjE exE)
    fix u
    assume "findHandler DefaultServeMux r = RedirectHandler u"
    with False show ?thesis
      by (simp add: serveRequest_def serverHandler_log ServeHTTP_def assms)
  next
    fix pat h
    assume f: "findHandler DefaultServeMux r = Registered pat h"
    obtain b where "callHandler h (newResponse r) r s =
        (Returned (okResponse (reqMethod r = ''HEAD'') b), s)"
      using callHandler_new [of h r r s] by blast
    with False f have "serveRequest r s =
        (Handled (okResponse (reqMethod r = ''HEAD'') b), s\<lparr>logged := logged s @ semicolonLog r\<rparr>)"
      by (simp add: serveRequest_def serverHandler_log ServeHTTP_def assms finishRequest_ok
          diagnostics_ok)
    then show ?thesis by auto
  qed
qed

lemma connServe_default_state:
  assumes "handlers s = DefaultServeMux"
  shows "snd (connServe a s) = s\<lparr>logged := logged s @ serverWarnings a\<rparr>"
proof (cases a)
  case (Rejected f)
  then show ?thesis by (simp add: connServe_def serverWarnings_def)
next
  case (Accepted r)
  then show ?thesis
    using serveRequest_default_cases [OF assms, of r]
    by (simp add: connServe_def serverWarnings_def expectationFailed_def)
qed

lemma connServe_default_cases:
  assumes "handlers s = DefaultServeMux"
  shows "(\<exists>f. answer s a = ReaderRefused f) \<or>
     answer s a = ExpectationFailed417 \<or>
     answer s a = GlobalOptions \<or>
     answer s a = BadRequest400 \<or>
     (\<exists>u. answer s a = MovedPermanently u) \<or>
     (\<exists>h b. answer s a = Handled (okResponse h b))"
proof (cases a)
  case (Rejected f)
  then show ?thesis by (simp add: answer_def connServe_def)
next
  case (Accepted r)
  then show ?thesis
    using serveRequest_default_cases [OF assms, of r]
    by (auto simp add: answer_def connServe_def)
qed

text \<open>The answer depends on the process through its multiplexer only.\<close>

lemma callHandler_fst: "fst (callHandler h w r s) = fst (callHandler h w r s')"
  by (cases h)
     (simp_all add: handleRoot_def handleHealth_def handleVersion_def
        split: prod.split outcome.split)

lemma handled_fst:
  "fst (case p of (Returned w', s') \<Rightarrow> (Handled w', s') | (Panicked q, s') \<Rightarrow> (Aborted q, s')) =
     (case fst p of Returned w' \<Rightarrow> Handled w' | Panicked q \<Rightarrow> Aborted q)"
  by (simp split: prod.split outcome.split)

lemma ServeHTTP_fst:
  "handlers s = handlers s' \<Longrightarrow> fst (ServeHTTP w r s) = fst (ServeHTTP w r s')"
  by (simp add: ServeHTTP_def handled_fst callHandler_fst [of _ w r s s'] split: route.split)

lemma serverHandler_fst_eq:
  "fst (serverHandler w r s) =
     (if path r = ''*'' \<and> reqMethod r = ''OPTIONS'' then GlobalOptions else fst (ServeHTTP w r s))"
  by (simp add: serverHandler_def split: prod.split)

lemma serverHandler_fst:
  "handlers s = handlers s' \<Longrightarrow> fst (serverHandler w r s) = fst (serverHandler w r s')"
  by (simp add: serverHandler_fst_eq ServeHTTP_fst [of s s' w r])

lemma serveRequest_fst_eq:
  "fst (serveRequest r s) =
     (case fst (serverHandler (newResponse r) r s) of
        Handled w \<Rightarrow> Handled (finishRequest w)
      | other \<Rightarrow> other)"
  by (simp add: serveRequest_def split: prod.split served.split)

lemma serveRequest_fst:
  "handlers s = handlers s' \<Longrightarrow> fst (serveRequest r s) = fst (serveRequest r s')"
  by (simp add: serveRequest_fst_eq serverHandler_fst [of s s'])

lemma answer_cong: "handlers s = handlers s' \<Longrightarrow> answer s a = answer s' a"
  using serveRequest_fst [of s s']
  by (simp add: answer_def connServe_def split: arrival.split)

lemma handlers_defaultProcess: "handlers defaultProcess = DefaultServeMux"
  by (simp add: defaultProcess_def)

lemma answer_default: "handlers s = DefaultServeMux \<Longrightarrow> answer s a = answer defaultProcess a"
  by (rule answer_cong) (simp add: handlers_defaultProcess)

lemma serveOne_default:
  assumes "handlers s = DefaultServeMux"
  shows "serveOne s a =
     s\<lparr>logged := logged s @ serverWarnings a,
       responses := responses s @ [(a, answer defaultProcess a)]\<rparr>"
proof -
  have "connServe a s = (answer defaultProcess a, s\<lparr>logged := logged s @ serverWarnings a\<rparr>)"
    using connServe_default_state [OF assms, of a] answer_default [OF assms, of a]
    by (simp add: answer_def prod_eq_iff)
  then show ?thesis
    by (simp add: serveOne_def)
qed

lemma serveAll_default:
  "handlers s = DefaultServeMux \<Longrightarrow>
     serveAll s as =
       s\<lparr>logged := logged s @ concat (map serverWarnings as),
         responses := responses s @ map (\<lambda>a. (a, answer defaultProcess a)) as\<rparr>"
proof (induction as arbitrary: s)
  case Nil
  then show ?case by simp
next
  case (Cons a as)
  have one: "serveOne s a =
      s\<lparr>logged := logged s @ serverWarnings a,
        responses := responses s @ [(a, answer defaultProcess a)]\<rparr>"
    using Cons.prems by (rule serveOne_default)
  have "handlers (serveOne s a) = DefaultServeMux"
    using Cons.prems by (simp add: one)
  from Cons.IH [OF this] show ?case
    by (simp add: one)
qed

lemma main_listen_fails:
  "listenError env = Some e \<Longrightarrow>
     main env = \<lparr>handlers = DefaultServeMux, logged = [startLine, e], listened = ['':3000''],
       responses = [], panicked = None, exitStatus = Some 1\<rparr>"
  by (simp add: main_def mainPort_def registerHandlers_default startProcess_def
      ListenAndServe_def logFatal_def startLine_def)

lemma main_listen_ok:
  "listenError env = None \<Longrightarrow>
     main env = \<lparr>handlers = DefaultServeMux,
       logged = startLine # concat (map serverWarnings (requests env)) @
         (case serveError env of None \<Rightarrow> [] | Some e \<Rightarrow> [e]),
       listened = ['':3000''],
       responses = map (\<lambda>a. (a, answer defaultProcess a)) (requests env),
       panicked = None,
       exitStatus = (case serveError env of None \<Rightarrow> None | Some e \<Rightarrow> Some 1)\<rparr>"
  by (simp add: main_def mainPort_def registerHandlers_default startProcess_def
      ListenAndServe_def logFatal_def startLine_def serveAll_default split: option.split)

lemma main_handlers: "handlers (main env) = DefaultServeMux"
  by (cases "listenError env") (simp_all add: main_listen_ok main_listen_fails)

lemma answer_main: "answer (main env) a = answer defaultProcess a"
  by (rule answer_default) (rule main_handlers)

text \<open>The answers to requests that pass the check of the Expect header.\<close>

lemma answer_default_rooted:
  assumes "\<not> expectationFailed r"
    and "path r \<noteq> []" and "hd (path r) = CHR ''/''"
    and "reqMethod r = ''CONNECT'' \<or> cleanPath (path r) = path r"
  shows "answer defaultProcess (Accepted r) =
     Handled (okResponse (reqMethod r = ''HEAD'')
        (if pathSegments (path r) = [''health''] then ''OK\<newline>''
         else if pathSegments (path r) = [''version''] then ''Version: 1.0.0\<newline>''
         else welcomeLine))"
  using assms(1)
  by (auto simp add: answer_def connServe_def expectationFailed_def
      serveRequest_default_rooted [OF handlers_defaultProcess assms(2,3,4)])



lemma answer_version:
  "path r = ''/version'' \<Longrightarrow> \<not> expectationFailed r \<Longrightarrow>
     answer defaultProcess (Accepted r) =
       Handled (okResponse (reqMethod r = ''HEAD'') ''Version: 1.0.0\<newline>'')"
  by (simp add: answer_default_rooted cleanPath_version pathSegments_version)




lemma answer_not_aborted: "answer defaultProcess a \<noteq> Aborted p"
  using connServe_default_cases [OF handlers_defaultProcess, of a] by auto

lemma no_expect_header: "header r = [] \<Longrightarrow> \<not> expectationFailed r"
  by (simp add: expectationFailed_def)


lemma version_bodies:
  "list_all (\<lambda>(a, resp). \<forall>r. a = Accepted r \<and> path r = ''/version'' \<and>
        \<not> expectationFailed r \<and> reqMethod r \<noteq> ''HEAD'' \<longrightarrow>
      responseBody resp = Some (''Version: '' @ version @ ''\<newline>''))
     (map (\<lambda>a. (a, answer defaultProcess a)) as)"
  by (induction as) (auto simp add: answer_version okResponse_def version_def)


lemma example_path: "path (exampleRequest m p) = p"
  by (simp add: exampleRequest_def)

lemma example_method: "reqMethod (exampleRequest m p) = m"
  by (simp add: exampleRequest_def)

lemma example_no_expect: "\<not> expectationFailed (exampleRequest m p)"
  by (rule no_expect_header) (simp add: exampleRequest_def)



section \<open>The claims\<close>

text \<open>
  In the statements below, \<open>main env\<close> is the process that \<open>main\<close> leaves in the
  environment \<open>env\<close>, and \<open>answer (main env) a\<close> is the answer of its server to the
  arrival \<open>a\<close>.
\<close>













text \<open>
  Claim C5. When binding the listener fails, the process logs the error and exits with
  status 1, after one attempt to listen and without having served a request. It is the
  only failure of the start: when binding succeeds, the process does not panic and
  everything that arrives is answered.
\<close>

theorem bind_failure_fatal:
  "(listenError env = Some e \<longrightarrow>
      logged (main env) = [''Starting server on port 3000...'', e] \<and>
      listened (main env) = ['':3000''] \<and>
      exitStatus (main env) = Some 1 \<and>
      responses (main env) = [] \<and>
      panicked (main env) = None) \<and>
   (listenError env = None \<longrightarrow>
      listened (main env) = ['':3000''] \<and>
      map fst (responses (main env)) = requests env \<and>
      panicked (main env) = None)"
  by (simp add: main_listen_fails main_listen_ok startLine_def comp_def)

theorem bind_failure_fatal_witness:
  "logged (main (exampleEnv (Some ''address already in use'') [Accepted (exampleRequest ''GET'' ''/'')]))
     = [''Starting server on port 3000...'', ''address already in use''] \<and>
   listened (main (exampleEnv (Some ''address already in use'') [Accepted (exampleRequest ''GET'' ''/'')]))
     = ['':3000''] \<and>
   exitStatus (main (exampleEnv (Some ''address already in use'') [Accepted (exampleRequest ''GET'' ''/'')]))
     = Some 1 \<and>
   responses (main (exampleEnv (Some ''address already in use'') [Accepted (exampleRequest ''GET'' ''/'')]))
     = [] \<and>
   map fst (responses (main (exampleEnv None [Accepted (exampleRequest ''GET'' ''/'')])))
     = [Accepted (exampleRequest ''GET'' ''/'')] \<and>
   panicked (main (exampleEnv None [Accepted (exampleRequest ''GET'' ''/'')])) = None"
  using bind_failure_fatal [of "exampleEnv (Some ''address already in use'') [Accepted (exampleRequest ''GET'' ''/'')]"
      "''address already in use''"]
    bind_failure_fatal [of "exampleEnv None [Accepted (exampleRequest ''GET'' ''/'')]" "[]"]
  by (simp add: exampleEnv_def)

text \<open>
  Claim C6. The branch that replaces an empty port by the default port is never taken:
  the port chosen in lines 15-18 is \<^verbatim>\<open>3000\<close> whatever the fallback value is, so the
  default port is not used, and every run of \<open>main\<close> listens on \<^verbatim>\<open>:3000\<close>.
\<close>

theorem default_port_unreachable:
  "mainPort fallback = ''3000'' \<and> listened (main env) = ['':3000'']"
  by (cases "listenError env") (simp_all add: mainPort_def main_listen_fails main_listen_ok)



text \<open>
  Claim C8. The configuration invariant: the version string is not empty, the port (the
  one \<open>main\<close> uses, and the default one) is a valid TCP port number in 1..65535, and
  neither changes while the process runs: every run listens on the one address made of
  that port, and every body sent in answer to a request for \<^verbatim>\<open>/version\<close> in a run
  (a request that passes the check of its \<^verbatim>\<open>Expect\<close> header and is not a HEAD
  request) reports that version.
\<close>

theorem configuration_invariant:
  "version \<noteq> [] \<and> validPort (mainPort defaultPort) \<and> validPort defaultPort \<and>
   listened (main env) = ['':'' @ mainPort defaultPort] \<and>
   list_all (\<lambda>(a, resp). \<forall>r. a = Accepted r \<and> path r = ''/version'' \<and>
        \<not> expectationFailed r \<and> reqMethod r \<noteq> ''HEAD'' \<longrightarrow>
      responseBody resp = Some (''Version: '' @ version @ ''\<newline>''))
     (responses (main env))"
proof -
  have "version \<noteq> []" by (simp add: version_def)
  moreover have "validPort (mainPort defaultPort)" by (simp add: validPort_def mainPort_def)
  moreover have "validPort defaultPort" by (simp add: validPort_def defaultPort_def)
  moreover have "listened (main env) = ['':'' @ mainPort defaultPort]"
    by (cases "listenError env") (simp_all add: mainPort_def main_listen_fails main_listen_ok)
  moreover have "list_all (\<lambda>(a, resp). \<forall>r. a = Accepted r \<and> path r = ''/version'' \<and>
        \<not> expectationFailed r \<and> reqMethod r \<noteq> ''HEAD'' \<longrightarrow>
      responseBody resp = Some (''Version: '' @ version @ ''\<newline>''))
     (responses (main env))"
  proof (cases "listenError env")
    case None
    then have "responses (main env) = map (\<lambda>a. (a, answer defaultProcess a)) (requests env)"
      by (simp add: main_listen_ok)
    then show ?thesis
      by (simp only: version_bodies)
  next
    case (Some e)
    then have "responses (main env) = []"
      by (simp add: main_listen_fails)
    then show ?thesis
      by (simp only: list.pred_inject(1))
  qed
  ultimately show ?thesis by simp
qed

theorem configuration_invariant_witness:
  "version \<noteq> [] \<and> validPort (mainPort defaultPort) \<and> validPort defaultPort \<and>
   listened (main (exampleEnv None [Accepted (exampleRequest ''GET'' ''/version'')])) = ['':3000''] \<and>
   responseBody (snd (hd (responses (main (exampleEnv None [Accepted (exampleRequest ''GET'' ''/version'')]))))) =
     Some ''Version: 1.0.0\<newline>''"
proof -
  have r: "responses (main (exampleEnv None [Accepted (exampleRequest ''GET'' ''/version'')])) =
      [(Accepted (exampleRequest ''GET'' ''/version''),
        answer defaultProcess (Accepted (exampleRequest ''GET'' ''/version'')))]"
    by (simp add: main_listen_ok exampleEnv_def)
  show ?thesis
    using configuration_invariant [of "exampleEnv None [Accepted (exampleRequest ''GET'' ''/version'')]"]
      example_no_expect [of "''GET''" "''/version''"]
    by (simp add: r example_path example_method mainPort_def version_def)
qed

text \<open>
  Claim C9. The three handlers cannot fail: on every writer, every request and every
  state of the process each of them returns (none panics), and nothing that arrives makes
  the server abort a response because a handler panicked.
\<close>

theorem handlers_infallible:
  "(\<exists>w'. fst (handleRoot w r s) = Returned w') \<and>
   (\<exists>w'. fst (handleHealth w r s) = Returned w') \<and>
   (\<exists>w'. fst (handleVersion w r s) = Returned w') \<and>
   (\<forall>p. answer (main env) a \<noteq> Aborted p)"
proof -
  have "\<exists>w'. fst (handleRoot w r s) = Returned w'"
    by (simp add: handleRoot_def split: prod.split)
  moreover have "\<exists>w'. fst (handleHealth w r s) = Returned w'"
    by (simp add: handleHealth_def WriteHeader_def StatusOK_def split: prod.split)
  moreover have "\<exists>w'. fst (handleVersion w r s) = Returned w'"
    by (simp add: handleVersion_def split: prod.split)
  moreover have "\<forall>p. answer (main env) a \<noteq> Aborted p"
    by (simp add: answer_main answer_not_aborted)
  ultimately show ?thesis by simp
qed




end
